theory Spec2Isabelle
  imports Main
begin

section \<open>Log entries, fields and errors\<close>

text \<open>
  The logging code works on the entries and fields of the zap library. A level is a
  signed 8-bit integer there; no arithmetic is done on it, only comparisons, so it is
  an \<open>int\<close> here. \<open>DebugLevel\<close> is the lowest level the library names.
\<close>

type_synonym Level = int

definition DebugLevel :: Level where
  "DebugLevel = -1"

definition InfoLevel :: Level where
  "InfoLevel = 0"

definition WarnLevel :: Level where
  "WarnLevel = 1"

definition ErrorLevel :: Level where
  "ErrorLevel = 2"

text \<open>
  A field is a key with a payload; the payload (type tag, integer, string) is carried
  along and never inspected by the code under study.
\<close>

record Field =
  Key :: string
  Integer :: int
  String :: string

record Entry =
  Level :: Level
  LoggerName :: string
  Message :: string

text \<open>
  Go errors. \<open>Canceled\<close> is the sentinel \<open>context.Canceled\<close>; \<open>New\<close> is
  \<open>errors.New\<close>; \<open>Errorf_w\<close>, \<open>Errorf_d\<close> and \<open>Errorf_s\<close> are
  \<open>fmt.Errorf\<close> with a text followed by one \<open>%w\<close>, \<open>%d\<close> or \<open>%s\<close> verb;
  \<open>JoinError\<close> is what \<open>errors.Join\<close> builds and \<open>MultiError\<close> what
  \<open>multierr.Append\<close> builds. An error result is an \<open>error option\<close>, \<open>None\<close>
  being \<open>nil\<close>.
\<close>

datatype error =
    Canceled
  | New string
  | Errorf_w string error
  | Errorf_d string int
  | Errorf_s string string
  | JoinError "error list"
  | MultiError "error list"

section \<open>The bridge core\<close>

text \<open>
  The core that is attached to the bridge is an interface value of the zap library.
  It is modelled by its methods over the state \<open>'s\<close> of the object behind it.
  \<open>tCheck\<close> tells whether \<open>Check(ent, nil)\<close> returns a checked entry; writing
  that checked entry hands the entry and the fields to the core's own \<open>Write\<close>,
  as the cores of the library do.
\<close>

record 's Core =
  tEnabled :: "Level \<Rightarrow> 's \<Rightarrow> bool"
  tCheck :: "Entry \<Rightarrow> 's \<Rightarrow> bool"
  tWrite :: "Entry \<Rightarrow> Field list \<Rightarrow> 's \<Rightarrow> error option \<times> 's"
  tSync :: "'s \<Rightarrow> error option \<times> 's"

text \<open>
  The records of the bridge. Their field lists are named \<open>cfields\<close> (of a
  handle) and \<open>lfields\<close> (of a buffered log): the source calls both
  \<open>fields\<close>, a name the record package keeps for itself.
\<close>

record bridgeCore =
  cfields :: "Field list"
  level :: Level

record bufferedLog =
  ent :: Entry
  lfields :: "Field list"

text \<open>
  The state every handle of one bridge points to. \<open>tstate\<close> is the state of the
  object behind the \<open>target\<close> interface value; the mutex is not modelled, every
  operation below is one critical section.
\<close>

record 's sharedBridgeState =
  target :: "'s Core option"
  buffer :: "bufferedLog list"
  tstate :: 's

definition internalKey :: string where
  "internalKey = ''internal''"

definition newBridgeCore :: "Level \<Rightarrow> bridgeCore" where
  "newBridgeCore lvl = \<lparr>cfields = [], level = lvl\<rparr>"

definition newShared :: "'s \<Rightarrow> 's sharedBridgeState" where
  "newShared s = \<lparr>target = None, buffer = [], tstate = s\<rparr>"

text \<open>The replay loop of \<open>SetTarget\<close>: the error of a replayed write is dropped.\<close>

fun replay :: "'s Core \<Rightarrow> bufferedLog list \<Rightarrow> 's \<Rightarrow> 's" where
  "replay core [] s = s"
| "replay core (l # ls) s =
     (if tCheck core (ent l) s
      then replay core ls (snd (tWrite core (ent l) (lfields l) s))
      else replay core ls s)"

definition SetTarget :: "'s Core \<Rightarrow> 's sharedBridgeState \<Rightarrow> 's sharedBridgeState" where
  "SetTarget core sh =
     sh\<lparr>target := Some core, buffer := [], tstate := replay core (buffer sh) (tstate sh)\<rparr>"

definition bridgeCore_Enabled :: "bridgeCore \<Rightarrow> Level \<Rightarrow> 's sharedBridgeState \<Rightarrow> bool" where
  "bridgeCore_Enabled b lvl sh =
     (case target sh of
        Some core \<Rightarrow> tEnabled core lvl (tstate sh)
      | None \<Rightarrow> level b \<le> lvl)"

definition bridgeCore_With :: "bridgeCore \<Rightarrow> Field list \<Rightarrow> bridgeCore" where
  "bridgeCore_With b fs = \<lparr>cfields = cfields b @ fs, level = level b\<rparr>"

definition hasInternalKey :: "Field list \<Rightarrow> bool" where
  "hasInternalKey fs = list_ex (\<lambda>f. Key f = internalKey) fs"

definition bridgeCore_Write ::
    "bridgeCore \<Rightarrow> Entry \<Rightarrow> Field list \<Rightarrow> 's sharedBridgeState \<Rightarrow> error option \<times> 's sharedBridgeState" where
  "bridgeCore_Write b e fs sh =
     (let allFields = cfields b @ fs in
      if hasInternalKey allFields then (None, sh)
      else case target sh of
        Some core \<Rightarrow>
          (let r = tWrite core e allFields (tstate sh) in (fst r, sh\<lparr>tstate := snd r\<rparr>))
      | None \<Rightarrow>
          if length (buffer sh) < 1000
          then (None, sh\<lparr>buffer := buffer sh @ [\<lparr>ent = e, lfields = allFields\<rparr>]\<rparr>)
          else (None, sh))"

definition bridgeCore_Sync :: "bridgeCore \<Rightarrow> 's sharedBridgeState \<Rightarrow> error option \<times> 's sharedBridgeState" where
  "bridgeCore_Sync b sh =
     (case target sh of
        Some core \<Rightarrow> (let r = tSync core (tstate sh) in (fst r, sh\<lparr>tstate := snd r\<rparr>))
      | None \<Rightarrow> (None, sh))"

text \<open>
  A run of writes, each through some handle of the bridge; the results are dropped,
  the shared state is threaded through.
\<close>

type_synonym logcall = "bridgeCore \<times> Entry \<times> Field list"

fun writes :: "logcall list \<Rightarrow> 's sharedBridgeState \<Rightarrow> 's sharedBridgeState" where
  "writes [] sh = sh"
| "writes ((b, e, fs) # cs) sh = writes cs (snd (bridgeCore_Write b e fs sh))"

definition logOf :: "logcall \<Rightarrow> bufferedLog" where
  "logOf c = (case c of (b, e, fs) \<Rightarrow> \<lparr>ent = e, lfields = cfields b @ fs\<rparr>)"

definition internalCall :: "logcall \<Rightarrow> bool" where
  "internalCall c = (case c of (b, e, fs) \<Rightarrow> hasInternalKey (cfields b @ fs))"

text \<open>
  The recording target of the testable properties: its state is the list of what it
  was asked to write, \<open>chk\<close> is its own \<open>Check\<close>, and its writes succeed.
\<close>

definition recorder :: "(Entry \<Rightarrow> bool) \<Rightarrow> (bufferedLog list) Core" where
  "recorder chk =
     \<lparr>tEnabled = (\<lambda>lvl s. True),
      tCheck = (\<lambda>e s. chk e),
      tWrite = (\<lambda>e fs s. (None, s @ [\<lparr>ent = e, lfields = fs\<rparr>])),
      tSync = (\<lambda>s. (None, s))\<rparr>"

subsection \<open>Sample values\<close>

definition exField :: "string \<Rightarrow> Field" where
  "exField k = \<lparr>Key = k, Integer = 1, String = []\<rparr>"

definition exEntry :: "Level \<Rightarrow> string \<Rightarrow> Entry" where
  "exEntry lvl msg = \<lparr>Level = lvl, LoggerName = ''api'', Message = msg\<rparr>"

definition exCalls :: "logcall list" where
  "exCalls =
     [(newBridgeCore InfoLevel, exEntry InfoLevel ''first'', []),
      (bridgeCore_With (newBridgeCore InfoLevel) [exField ''route''], exEntry DebugLevel ''second'', []),
      (newBridgeCore InfoLevel, exEntry ErrorLevel ''third'', [exField ''count''])]"

section \<open>The root core\<close>

text \<open>
  \<open>rootCore\<close> embeds a core of the zap library. \<open>Logging.Logger\<close> builds two of
  them, one around the standard core of the library and one around the bridge core.
  The embedded core of \<open>rootCore\<close> is the bridge core here, the implementation the
  repository holds; the root core around the standard core follows with the tee.
  A checked entry keeps the entry it was created with and the cores registered in it.
\<close>

record rootCore =
  Core :: bridgeCore
  fieldsPrefix :: string

record CheckedEntry =
  Entry :: Entry
  cores :: "rootCore list"

text \<open>
  \<open>ce.AddCore(ent, core)\<close> of the library: a \<open>nil\<close> receiver becomes a fresh
  checked entry for \<open>ent\<close>; the core is appended.
\<close>

definition AddCore :: "CheckedEntry option \<Rightarrow> Entry \<Rightarrow> rootCore \<Rightarrow> CheckedEntry option" where
  "AddCore ce e c =
     (case ce of
        None \<Rightarrow> Some \<lparr>Entry = e, cores = [c]\<rparr>
      | Some x \<Rightarrow> Some (x\<lparr>cores := cores x @ [c]\<rparr>))"

text \<open>
  The loop \<open>fields[i].Key = c.fieldsPrefix + "_" + fields[i].Key\<close> over the slice. It
  rewrites the caller's slice in place, so \<open>rootCore_With\<close> and \<open>rootCore_Write\<close>
  return the slice as the caller finds it afterwards next to their result.
\<close>

definition prefixKeys :: "string \<Rightarrow> Field list \<Rightarrow> Field list" where
  "prefixKeys p fs = map (\<lambda>f. f\<lparr>Key := p @ ''_'' @ Key f\<rparr>) fs"

definition rootCore_With :: "rootCore \<Rightarrow> Field list \<Rightarrow> rootCore \<times> Field list" where
  "rootCore_With c fs =
     (let fs' = (if fieldsPrefix c \<noteq> [] then prefixKeys (fieldsPrefix c) fs else fs) in
      (\<lparr>Core = bridgeCore_With (Core c) fs', fieldsPrefix = fieldsPrefix c\<rparr>, fs'))"

definition rootCore_Check ::
    "rootCore \<Rightarrow> Entry \<Rightarrow> CheckedEntry option \<Rightarrow> 's sharedBridgeState \<Rightarrow> CheckedEntry option" where
  "rootCore_Check c e ce sh =
     (let entry = (if Level e < DebugLevel then e\<lparr>Level := DebugLevel\<rparr> else e) in
      if bridgeCore_Enabled (Core c) (Level entry) sh then AddCore ce entry c else ce)"

definition rootCore_Write ::
    "rootCore \<Rightarrow> Entry \<Rightarrow> Field list \<Rightarrow> 's sharedBridgeState
      \<Rightarrow> error option \<times> 's sharedBridgeState \<times> Field list" where
  "rootCore_Write c e fs sh =
     (let entry = (if Level e < DebugLevel then e\<lparr>Level := DebugLevel\<rparr> else e);
          fs' = (if fieldsPrefix c \<noteq> [] then prefixKeys (fieldsPrefix c) fs else fs);
          r = bridgeCore_Write (Core c) entry fs' sh
      in (fst r, snd r, fs'))"

text \<open>
  The floor of the levels is \<open>DebugLevel\<close>, the constant both \<open>Check\<close> and
  \<open>Write\<close> compare with. \<open>floorEntry\<close> is an entry with its level raised to the
  floor, and a log is \<open>atFloor\<close> when its entry is not below it.
\<close>

definition floorEntry :: "Entry \<Rightarrow> Entry" where
  "floorEntry e = e\<lparr>Level := max (Level e) DebugLevel\<rparr>"

definition atFloor :: "bufferedLog \<Rightarrow> bool" where
  "atFloor l = (DebugLevel \<le> Level (ent l))"

subsection \<open>The tee of the logger\<close>

text \<open>
  The standard core is a core of the zap library: it keeps the fields \<open>With\<close> gives
  it and writes every entry out with them, followed by the fields of the call. It is
  modelled by its handle and by the list of the logs written out.
\<close>

record stdCore =
  sfields :: "Field list"
  slevel :: Level

definition stdCore_With :: "stdCore \<Rightarrow> Field list \<Rightarrow> stdCore" where
  "stdCore_With s fs = \<lparr>sfields = sfields s @ fs, slevel = slevel s\<rparr>"

definition stdCore_Write ::
    "stdCore \<Rightarrow> Entry \<Rightarrow> Field list \<Rightarrow> bufferedLog list \<Rightarrow> error option \<times> bufferedLog list" where
  "stdCore_Write s e fs out = (None, out @ [\<lparr>ent = e, lfields = sfields s @ fs\<rparr>])"

text \<open>
  The root core around the standard core: \<open>rootCore.With\<close> and
  \<open>rootCore.Write\<close> once more, with the standard core as the embedded core.
\<close>

record stdRootCore =
  StdCore :: stdCore
  stdFieldsPrefix :: string

definition stdRootCore_With :: "stdRootCore \<Rightarrow> Field list \<Rightarrow> stdRootCore \<times> Field list" where
  "stdRootCore_With c fs =
     (let fs' = (if stdFieldsPrefix c \<noteq> [] then prefixKeys (stdFieldsPrefix c) fs else fs) in
      (\<lparr>StdCore = stdCore_With (StdCore c) fs', stdFieldsPrefix = stdFieldsPrefix c\<rparr>, fs'))"

definition stdRootCore_Write ::
    "stdRootCore \<Rightarrow> Entry \<Rightarrow> Field list \<Rightarrow> bufferedLog list
      \<Rightarrow> error option \<times> bufferedLog list \<times> Field list" where
  "stdRootCore_Write c e fs out =
     (let entry = (if Level e < DebugLevel then e\<lparr>Level := DebugLevel\<rparr> else e);
          fs' = (if stdFieldsPrefix c \<noteq> [] then prefixKeys (stdFieldsPrefix c) fs else fs);
          r = stdCore_Write (StdCore c) entry fs' out
      in (fst r, snd r, fs'))"

text \<open>
  \<open>Logging.Logger\<close> makes one logger over a tee of two root cores with the same
  prefix: the first around the standard core, the second around the bridge core it
  has just made.
\<close>

record teeCore =
  stdRoot :: stdRootCore
  bridgeRoot :: rootCore

definition Logger_tee :: "string \<Rightarrow> Level \<Rightarrow> teeCore" where
  "Logger_tee prefix lvl =
     \<lparr>stdRoot = \<lparr>StdCore = \<lparr>sfields = [], slevel = lvl\<rparr>, stdFieldsPrefix = prefix\<rparr>,
      bridgeRoot = \<lparr>Core = newBridgeCore lvl, fieldsPrefix = prefix\<rparr>\<rparr>"

text \<open>
  The tee of the library hands the slice of a call to its cores in turn, the same
  slice to each: \<open>With\<close> derives a handle of every core, and the checked entry
  in which both cores are registered writes to the first core and then to the second.
  The state is the output of the standard core and the shared state of the bridge.
\<close>

definition tee_With :: "teeCore \<Rightarrow> Field list \<Rightarrow> teeCore \<times> Field list" where
  "tee_With t fs =
     (let r1 = stdRootCore_With (stdRoot t) fs;
          r2 = rootCore_With (bridgeRoot t) (snd r1)
      in (\<lparr>stdRoot = fst r1, bridgeRoot = fst r2\<rparr>, snd r2))"

definition tee_Write ::
    "teeCore \<Rightarrow> Entry \<Rightarrow> Field list \<Rightarrow> bufferedLog list \<times> 's sharedBridgeState
      \<Rightarrow> (bufferedLog list \<times> 's sharedBridgeState) \<times> Field list" where
  "tee_Write t e fs w =
     (let r1 = stdRootCore_Write (stdRoot t) e fs (fst w);
          r2 = rootCore_Write (bridgeRoot t) e (snd (snd r1)) (snd w)
      in ((fst (snd r1), fst (snd r2)), snd (snd r2)))"

section \<open>The telemetry module\<close>

subsection \<open>Errors of the Go library\<close>

text \<open>
  \<open>errors.Is\<close> walks the chain of wrapped errors; it is used with the sentinel
  \<open>Canceled\<close> as its target only.
\<close>

fun errors_Is :: "error \<Rightarrow> error \<Rightarrow> bool" where
  "errors_Is Canceled t = (t = Canceled)"
| "errors_Is (New s) t = (t = New s)"
| "errors_Is (Errorf_w p e) t = (t = Errorf_w p e \<or> errors_Is e t)"
| "errors_Is (Errorf_d p n) t = (t = Errorf_d p n)"
| "errors_Is (Errorf_s p x) t = (t = Errorf_s p x)"
| "errors_Is (JoinError es) t = (t = JoinError es \<or> list_ex (\<lambda>e. errors_Is e t) es)"
| "errors_Is (MultiError es) t = (t = MultiError es \<or> list_ex (\<lambda>e. errors_Is e t) es)"

definition errors_Join :: "error option list \<Rightarrow> error option" where
  "errors_Join errs =
     (case List.map_filter id errs of
        [] \<Rightarrow> None
      | e # es \<Rightarrow> Some (JoinError (e # es)))"

fun flatten :: "error \<Rightarrow> error list" where
  "flatten (MultiError es) = es"
| "flatten e = [e]"

definition multierr_Append :: "error option \<Rightarrow> error option \<Rightarrow> error option" where
  "multierr_Append left right =
     (case left of
        None \<Rightarrow> right
      | Some l \<Rightarrow>
          (case right of
             None \<Rightarrow> left
           | Some r \<Rightarrow> Some (MultiError (flatten l @ flatten r))))"

definition multierr_Errors :: "error option \<Rightarrow> error list" where
  "multierr_Errors err = (case err of None \<Rightarrow> [] | Some e \<Rightarrow> flatten e)"

function showNat :: "nat \<Rightarrow> string" where
  "showNat n =
     (if n < 10 then [''0123456789'' ! n]
      else showNat (n div 10) @ [''0123456789'' ! (n mod 10)])"
  by pat_completeness auto
termination
  by (relation "measure (\<lambda>n. n)") auto

definition showInt :: "int \<Rightarrow> string" where
  "showInt i = (if i < 0 then CHR ''-'' # showNat (nat (- i)) else showNat (nat i))"

fun joinStrings :: "string \<Rightarrow> string list \<Rightarrow> string" where
  "joinStrings sep [] = []"
| "joinStrings sep [x] = x"
| "joinStrings sep (x # y # ys) = x @ sep @ joinStrings sep (y # ys)"

text \<open>The message of an error, its \<open>Error()\<close>.\<close>

fun Error :: "error \<Rightarrow> string" where
  "Error Canceled = ''context canceled''"
| "Error (New s) = s"
| "Error (Errorf_w p e) = p @ Error e"
| "Error (Errorf_d p n) = p @ showInt n"
| "Error (Errorf_s p x) = p @ x"
| "Error (JoinError es) = joinStrings [CHR 0x0A] (map Error es)"
| "Error (MultiError es) = joinStrings ''; '' (map Error es)"

subsection \<open>The module\<close>

type_synonym MetricInstrument = int

definition CounterInstrument :: MetricInstrument where
  "CounterInstrument = 0"

definition UpDownCounterInstrument :: MetricInstrument where
  "UpDownCounterInstrument = 1"

definition HistogramInstrument :: MetricInstrument where
  "HistogramInstrument = 2"

definition GaugeInstrument :: MetricInstrument where
  "GaugeInstrument = 3"

text \<open>A metric; its \<open>Read\<close> function yields floating point values and is left out.\<close>

record Metric =
  Name :: string
  Description :: string
  Instrument :: MetricInstrument

record Resource =
  ServiceName :: string
  ServiceVersion :: string
  HostName :: string

text \<open>
  A context is modelled by the names of the spans it carries, a tracer by the name it
  was made for; \<open>Tracer_Start\<close> stands for the \<open>Start\<close> of the tracer of the
  OpenTelemetry library. A \<open>nil\<close> interface value or pointer is \<open>None\<close>.
\<close>

type_synonym Context = "string list"

record TracerSpan =
  spanName :: string
  ended :: bool

datatype Tracer = Tracer string

definition Tracer_Start :: "Tracer \<Rightarrow> Context \<Rightarrow> string \<Rightarrow> Context \<times> TracerSpan" where
  "Tracer_Start tr ctx name = (name # ctx, \<lparr>spanName = name, ended = False\<rparr>)"

record Otel =
  serviceName :: string
  logExporterProtocol :: string
  enableLogExporter :: bool
  metricExporterProcotol :: string
  metricsCollectInterval :: int
  enableMetricExporter :: bool
  spanExporterProtocol :: string
  enableSpanExporter :: bool
  metrics :: "Metric list"
  otlpLoggerProvider :: "Resource option"
  otlpMeterProvider :: "Resource option"
  otlpTracerProvider :: "Resource option"
  otlpTracer :: "Tracer option"

definition Validate :: "Otel \<Rightarrow> error option" where
  "Validate m =
     (if \<not> enableMetricExporter m \<and> \<not> enableSpanExporter m \<and> \<not> enableLogExporter m then None
      else
        let err0 = None;
            err1 = (if serviceName m = [] then
                      multierr_Append err0 (Some (New ''service name must not be empty''))
                    else err0);
            err2 = (if enableLogExporter m \<and> logExporterProtocol m \<noteq> ''grpc'' then
                      multierr_Append err1 (Some (New
                        ''currently, only the 'grpc' protocol is supported for the OTLP log exporter''))
                    else err1);
            err3 = (if enableMetricExporter m \<and> metricExporterProcotol m \<noteq> ''grpc'' then
                      multierr_Append err2 (Some (New
                        ''currently, only the 'grpc' protocol is supported for the OTLP metric exporter''))
                    else err2);
            err4 = (if enableSpanExporter m \<and> spanExporterProtocol m \<noteq> ''grpc'' then
                      multierr_Append err3 (Some (New
                        ''currently, only the 'grpc' protocol is supported for the OTLP span exporter''))
                    else err3)
        in err4)"

text \<open>
  A method called on a \<open>nil\<close> interface value panics; \<open>fault\<close> is that panic.
  \<open>TraceStart\<close> returns \<open>nil\<close> when the span exporter is disabled.
\<close>

datatype fault = NilDereference

definition TraceStart ::
    "Otel \<Rightarrow> Context \<Rightarrow> string \<Rightarrow> fault + (Context option \<times> TracerSpan option)" where
  "TraceStart m ctx name =
     (if enableSpanExporter m then
        (case otlpTracer m of
           None \<Rightarrow> Inl NilDereference
         | Some tr \<Rightarrow> (let r = Tracer_Start tr ctx name in Inr (Some (fst r), Some (snd r))))
      else Inr (None, None))"

text \<open>\<open>span.End()\<close> on the span a caller received.\<close>

definition TracerSpan_End :: "TracerSpan option \<Rightarrow> fault + TracerSpan" where
  "TracerSpan_End sp =
     (case sp of None \<Rightarrow> Inl NilDereference | Some x \<Rightarrow> Inr (x\<lparr>ended := True\<rparr>))"

subsection \<open>Starting and stopping the exporters\<close>

text \<open>
  What \<open>Start\<close> and \<open>Stop\<close> get from outside the repository: the host name, the
  version of the application, the errors of the three gRPC exporter constructors, of
  the log exporter hook and of the creation of an instrument for a metric, and the
  results of the three provider shutdowns.
\<close>

record Env =
  Hostname :: "error + string"
  Version :: string
  otlploggrpc_New :: "error option"
  otlpmetricgrpc_New :: "error option"
  otlptracegrpc_New :: "error option"
  RegisterCore :: "error option"
  newInstrument :: "Metric \<Rightarrow> error option"
  loggerShutdown :: "error option"
  meterShutdown :: "error option"
  tracerShutdown :: "error option"

definition newLogExporter :: "Env \<Rightarrow> string \<Rightarrow> error option" where
  "newLogExporter env protocol =
     (if protocol = ''grpc'' then
        (case otlploggrpc_New env of
           Some err \<Rightarrow> Some (Errorf_w ''create OTLP gRPC log exporter: '' err)
         | None \<Rightarrow> None)
      else Some (Errorf_s ''unknown OTLP log exporter protocol: '' protocol))"

definition newMetricExporter :: "Env \<Rightarrow> string \<Rightarrow> error option" where
  "newMetricExporter env protocol =
     (if protocol = ''grpc'' then
        (case otlpmetricgrpc_New env of
           Some err \<Rightarrow> Some (Errorf_w ''create OTLP gRPC metric exporter: '' err)
         | None \<Rightarrow> None)
      else Some (Errorf_s ''unknown OTLP metric exporter protocol: '' protocol))"

definition newSpanExporter :: "Env \<Rightarrow> string \<Rightarrow> error option" where
  "newSpanExporter env protocol =
     (if protocol = ''grpc'' then
        (case otlptracegrpc_New env of
           Some err \<Rightarrow> Some (Errorf_w ''create OTLP gRPC span exporter: '' err)
         | None \<Rightarrow> None)
      else Some (Errorf_s ''unknown OTLP span exporter protocol: '' protocol))"

text \<open>
  The loop of \<open>Start\<close> over the metrics: an instrument is created and a poller is
  spawned for each metric in turn; the loop returns at the first error. The second
  result lists the metrics whose poller runs.
\<close>

fun startPollers :: "Env \<Rightarrow> Metric list \<Rightarrow> Metric list \<Rightarrow> error option \<times> Metric list" where
  "startPollers env [] spawned = (None, spawned)"
| "startPollers env (m # ms) spawned =
     (if Instrument m = CounterInstrument then
        (case newInstrument env m of
           Some err \<Rightarrow> (Some (Errorf_w ''create counter instrument: '' err), spawned)
         | None \<Rightarrow> startPollers env ms (spawned @ [m]))
      else if Instrument m = UpDownCounterInstrument then
        (case newInstrument env m of
           Some err \<Rightarrow> (Some (Errorf_w ''create up down counter instrument: '' err), spawned)
         | None \<Rightarrow> startPollers env ms (spawned @ [m]))
      else if Instrument m = HistogramInstrument then
        (case newInstrument env m of
           Some err \<Rightarrow> (Some (Errorf_w ''create histogram instrument: '' err), spawned)
         | None \<Rightarrow> startPollers env ms (spawned @ [m]))
      else if Instrument m = GaugeInstrument then
        (case newInstrument env m of
           Some err \<Rightarrow> (Some (Errorf_w ''create gauge instrument: '' err), spawned)
         | None \<Rightarrow> startPollers env ms (spawned @ [m]))
      else (Some (Errorf_d ''unknown instrument: '' (Instrument m)), spawned))"

text \<open>
  The three parts of \<open>Start\<close>, in the order of the source. Each returns the error
  \<open>Start\<close> returns at once, or the module as it has set it up.
\<close>

definition startLog :: "Env \<Rightarrow> Resource \<Rightarrow> Otel \<Rightarrow> error + Otel" where
  "startLog env res m =
     (if enableLogExporter m then
        (case newLogExporter env (logExporterProtocol m) of
           Some err \<Rightarrow> Inl (Errorf_w ''create OTLP log exporter: '' err)
         | None \<Rightarrow>
             (case RegisterCore env of
                Some err \<Rightarrow> Inl (Errorf_w ''register core to hook: '' err)
              | None \<Rightarrow> Inr (m\<lparr>otlpLoggerProvider := Some res\<rparr>)))
      else Inr m)"

definition startMetric :: "Env \<Rightarrow> Resource \<Rightarrow> Otel \<Rightarrow> error + (Otel \<times> Metric list)" where
  "startMetric env res m =
     (if enableMetricExporter m then
        (case newMetricExporter env (metricExporterProcotol m) of
           Some err \<Rightarrow> Inl (Errorf_w ''create OTLP metric exporter: '' err)
         | None \<Rightarrow>
             (case startPollers env (metrics m) [] of
                (Some err, spawned) \<Rightarrow> Inl err
              | (None, spawned) \<Rightarrow> Inr (m\<lparr>otlpMeterProvider := Some res\<rparr>, spawned)))
      else Inr (m, []))"

definition startSpan :: "Env \<Rightarrow> Resource \<Rightarrow> Otel \<Rightarrow> error + Otel" where
  "startSpan env res m =
     (if enableSpanExporter m then
        (case newSpanExporter env (spanExporterProtocol m) of
           Some err \<Rightarrow> Inl (Errorf_w ''OTLP span exporter: '' err)
         | None \<Rightarrow>
             Inr (m\<lparr>otlpTracerProvider := Some res, otlpTracer := Some (Tracer (serviceName m))\<rparr>))
      else Inr m)"

text \<open>
  \<open>Start\<close> returns its error, or the module it has set up with the metrics whose
  poller it has spawned. What a failed \<open>Start\<close> leaves behind is not modelled.
\<close>

definition Start :: "Env \<Rightarrow> Otel \<Rightarrow> error + (Otel \<times> Metric list)" where
  "Start env m =
     (if \<not> enableMetricExporter m \<and> \<not> enableSpanExporter m \<and> \<not> enableLogExporter m
      then Inr (m, [])
      else
        case Hostname env of
          Inl err \<Rightarrow> Inl (Errorf_w ''get hostname: '' err)
        | Inr hostName \<Rightarrow>
            (let res = \<lparr>ServiceName = serviceName m, ServiceVersion = Version env,
                        HostName = hostName\<rparr> in
             case startLog env res m of
               Inl err \<Rightarrow> Inl err
             | Inr m1 \<Rightarrow>
                 (case startMetric env res m1 of
                    Inl err \<Rightarrow> Inl err
                  | Inr (m2, spawned) \<Rightarrow>
                      (case startSpan env res m2 of
                         Inl err \<Rightarrow> Inl err
                       | Inr m3 \<Rightarrow> Inr (m3, spawned)))))"

definition filterErr :: "error option \<Rightarrow> error option" where
  "filterErr err =
     (case err of
        None \<Rightarrow> None
      | Some e \<Rightarrow> if errors_Is e Canceled then None else Some e)"

text \<open>
  \<open>Stop\<close> of a module that \<open>Start\<close> has set up. Each of the three goroutines sends
  one result on a channel of its own, and the results are received in a fixed order,
  so the value returned does not depend on the schedule.
\<close>

definition Stop :: "Env \<Rightarrow> Otel \<Rightarrow> error option" where
  "Stop env m =
     (if \<not> enableMetricExporter m \<and> \<not> enableSpanExporter m \<and> \<not> enableLogExporter m then None
      else
        let errLog = filterErr (if \<not> enableLogExporter m then None else loggerShutdown env);
            errMetric = filterErr (if \<not> enableMetricExporter m then None else meterShutdown env);
            errTracer = filterErr (if \<not> enableSpanExporter m then None else tracerShutdown env)
        in errors_Join [errLog, errMetric, errTracer])"

subsection \<open>The configuration errors and the shutdown errors, as the specification lists them\<close>

text \<open>
  The errors \<open>Validate\<close> is to collect: one for an empty service name, one for each
  enabled exporter whose protocol is not \<open>grpc\<close>.
\<close>

definition configFindings :: "Otel \<Rightarrow> error list" where
  "configFindings m =
     (if serviceName m = [] then [New ''service name must not be empty''] else [])
     @ (if enableLogExporter m \<and> logExporterProtocol m \<noteq> ''grpc''
        then [New ''currently, only the 'grpc' protocol is supported for the OTLP log exporter'']
        else [])
     @ (if enableMetricExporter m \<and> metricExporterProcotol m \<noteq> ''grpc''
        then [New ''currently, only the 'grpc' protocol is supported for the OTLP metric exporter'']
        else [])
     @ (if enableSpanExporter m \<and> spanExporterProtocol m \<noteq> ''grpc''
        then [New ''currently, only the 'grpc' protocol is supported for the OTLP span exporter'']
        else [])"

text \<open>
  The errors \<open>Stop\<close> is to report: those of the shutdowns of the enabled exporters
  that are not a cancellation of the context.
\<close>

definition survivor :: "bool \<Rightarrow> error option \<Rightarrow> error list" where
  "survivor enabled r =
     (case r of
        None \<Rightarrow> []
      | Some e \<Rightarrow> if enabled \<and> \<not> errors_Is e Canceled then [e] else [])"

definition survivors :: "Env \<Rightarrow> Otel \<Rightarrow> error list" where
  "survivors env m =
     survivor (enableLogExporter m) (loggerShutdown env)
     @ survivor (enableMetricExporter m) (meterShutdown env)
     @ survivor (enableSpanExporter m) (tracerShutdown env)"

definition knownInstrument :: "Metric \<Rightarrow> bool" where
  "knownInstrument x =
     (Instrument x = CounterInstrument \<or> Instrument x = UpDownCounterInstrument
      \<or> Instrument x = HistogramInstrument \<or> Instrument x = GaugeInstrument)"

subsection \<open>Sample configurations\<close>

definition exOtel :: Otel where
  "exOtel =
     \<lparr>serviceName = ''gotenberg'', logExporterProtocol = ''grpc'', enableLogExporter = True,
      metricExporterProcotol = ''grpc'', metricsCollectInterval = 5000000000,
      enableMetricExporter = True, spanExporterProtocol = ''grpc'', enableSpanExporter = True,
      metrics = [], otlpLoggerProvider = None, otlpMeterProvider = None,
      otlpTracerProvider = None, otlpTracer = None\<rparr>"

definition exEnv :: Env where
  "exEnv =
     \<lparr>Hostname = Inr ''host'', Version = ''8'', otlploggrpc_New = None, otlpmetricgrpc_New = None,
      otlptracegrpc_New = None, RegisterCore = None, newInstrument = (\<lambda>x. None),
      loggerShutdown = None, meterShutdown = None, tracerShutdown = None\<rparr>"

definition exMetric :: "string \<Rightarrow> MetricInstrument \<Rightarrow> Metric" where
  "exMetric n k = \<lparr>Name = n, Description = [], Instrument = k\<rparr>"

section \<open>Properties of the bridge core\<close>

lemma replay_recorder:
  "replay (recorder chk) ls s = s @ filter (\<lambda>l. chk (ent l)) ls"
  by (induction ls arbitrary: s) (simp_all add: recorder_def)

lemma writes_unattached:
  "target sh = None \<Longrightarrow>
   writes cs sh =
     sh\<lparr>buffer := buffer sh @ take (1000 - length (buffer sh))
                          (map logOf (filter (\<lambda>c. \<not> internalCall c) cs))\<rparr>"
proof (induction cs arbitrary: sh)
  case Nil
  then show ?case by simp
next
  case (Cons c cs)
  obtain b e fs where c: "c = (b, e, fs)" by (cases c)
  let ?sh = "snd (bridgeCore_Write b e fs sh)"
  have t: "target ?sh = None"
    using Cons.prems by (simp add: bridgeCore_Write_def Let_def)
  show ?case
  proof (cases "internalCall c")
    case True
    then have "?sh = sh" by (simp add: c internalCall_def bridgeCore_Write_def)
    then show ?thesis using Cons.IH [OF t] True by (simp add: c)
  next
    case False
    show ?thesis
    proof (cases "length (buffer sh) < 1000")
      case True
      then have s: "?sh = sh\<lparr>buffer := buffer sh @ [logOf c]\<rparr>"
        using False Cons.prems by (simp add: c internalCall_def bridgeCore_Write_def logOf_def)
      have "1000 - length (buffer sh) = Suc (1000 - Suc (length (buffer sh)))"
        using True by simp
      then show ?thesis using Cons.IH [OF t] False by (simp add: c s)
    next
      case F: False
      then have s: "?sh = sh"
        using False Cons.prems by (simp add: c internalCall_def bridgeCore_Write_def)
      show ?thesis using Cons.IH [OF t] F by (simp add: c s)
    qed
  qed
qed

lemma writes_attached:
  "target sh = Some core \<Longrightarrow> target (writes cs sh) = Some core \<and> buffer (writes cs sh) = buffer sh"
proof (induction cs arbitrary: sh)
  case Nil
  then show ?case by simp
next
  case (Cons c cs)
  obtain b e fs where c: "c = (b, e, fs)" by (cases c)
  let ?sh = "snd (bridgeCore_Write b e fs sh)"
  have "target ?sh = Some core \<and> buffer ?sh = buffer sh"
    using Cons.prems by (simp add: bridgeCore_Write_def Let_def)
  then show ?case using Cons.IH [of ?sh] by (simp add: c)
qed

text \<open>
  C1. Calls that carry no internal key, at most 1000 of them, are written through any
  handles of a bridge that has no target yet. Attaching a recording target then makes
  the target observe exactly the written entries, each with the fields of its handle
  followed by its own, in the order of the calls and once each, those its own
  \<open>Check\<close> suppresses left out. The buffer is empty afterwards, so attaching
  again shows the target nothing a second time.
\<close>

theorem replay_in_order:
  assumes "\<forall>c \<in> set cs. \<not> internalCall c" and "length cs \<le> 1000"
  shows "tstate (SetTarget (recorder chk) (writes cs (newShared s0))) =
           s0 @ filter (\<lambda>l. chk (ent l)) (map logOf cs)
         \<and> buffer (SetTarget (recorder chk) (writes cs (newShared s0))) = []
         \<and> tstate (SetTarget (recorder chk) (SetTarget (recorder chk) (writes cs (newShared s0)))) =
           tstate (SetTarget (recorder chk) (writes cs (newShared s0)))"
proof -
  have f: "filter (\<lambda>c. \<not> internalCall c) cs = cs"
    using assms(1) by (simp add: filter_id_conv)
  have w: "writes cs (newShared s0) = (newShared s0)\<lparr>buffer := map logOf cs\<rparr>"
    using writes_unattached [of "newShared s0" cs] assms(2)
    by (simp add: newShared_def f)
  have "buffer (writes cs (newShared s0)) = map logOf cs"
    and "tstate (writes cs (newShared s0)) = s0"
    by (simp_all add: w) (simp add: newShared_def)
  then show ?thesis
    by (simp add: SetTarget_def replay_recorder)
qed

theorem replay_in_order_witness:
  "tstate (SetTarget (recorder (\<lambda>e. InfoLevel \<le> Level e)) (writes exCalls (newShared []))) =
     [\<lparr>ent = exEntry InfoLevel ''first'', lfields = []\<rparr>,
      \<lparr>ent = exEntry ErrorLevel ''third'', lfields = [exField ''count'']\<rparr>]"
  using replay_in_order [of exCalls "\<lambda>e. InfoLevel \<le> Level e" "[]"]
  by (simp add: exCalls_def internalCall_def hasInternalKey_def internalKey_def logOf_def
      bridgeCore_With_def newBridgeCore_def exField_def exEntry_def InfoLevel_def
      DebugLevel_def ErrorLevel_def)

text \<open>
  C2. Once \<open>SetTarget\<close> has returned, whatever is written afterwards, the target
  stays attached and the buffer stays empty; a write without an internal key goes to
  the target's \<open>Write\<close> with the handle's fields followed by the call's, and
  returns the target's result.
\<close>

theorem attached_bypass:
  assumes "sh' = writes cs (SetTarget core sh)"
  shows "target sh' = Some core \<and> buffer sh' = []
         \<and> (\<not> hasInternalKey (cfields b @ fs) \<longrightarrow>
              bridgeCore_Write b e fs sh' =
                (fst (tWrite core e (cfields b @ fs) (tstate sh')),
                 sh'\<lparr>tstate := snd (tWrite core e (cfields b @ fs) (tstate sh'))\<rparr>)
              \<and> buffer (snd (bridgeCore_Write b e fs sh')) = [])"
proof -
  have "target (SetTarget core sh) = Some core" and "buffer (SetTarget core sh) = []"
    by (simp_all add: SetTarget_def)
  then have "target sh' = Some core" and "buffer sh' = []"
    using writes_attached [of "SetTarget core sh" core cs] assms by simp_all
  then show ?thesis
    by (simp add: bridgeCore_Write_def Let_def)
qed

theorem attached_bypass_witness:
  "bridgeCore_Write (newBridgeCore InfoLevel) (exEntry WarnLevel ''late'') [exField ''count'']
     (writes exCalls (SetTarget (recorder (\<lambda>e. True)) (newShared []))) =
   (None,
    \<lparr>target = Some (recorder (\<lambda>e. True)), buffer = [],
     tstate = map logOf exCalls @ [\<lparr>ent = exEntry WarnLevel ''late'', lfields = [exField ''count'']\<rparr>]\<rparr>)"
  using attached_bypass [of "writes exCalls (SetTarget (recorder (\<lambda>e. True)) (newShared []))"
      exCalls "recorder (\<lambda>e. True)" "newShared []" "newBridgeCore InfoLevel" "[exField ''count'']"
      "exEntry WarnLevel ''late''"]
  apply (simp add: hasInternalKey_def internalKey_def newBridgeCore_def exField_def)
  apply (simp add: exCalls_def SetTarget_def newShared_def bridgeCore_Write_def hasInternalKey_def
      internalKey_def newBridgeCore_def bridgeCore_With_def exField_def recorder_def logOf_def)
  done

text \<open>
  C3. The buffer of a bridge never holds more than 1000 logs. Without a target, a write
  without an internal key appends its log when fewer than 1000 are buffered and leaves
  the state alone otherwise, and returns no error either way. Of 1001 such writes
  before the attachment, the first 1000 are replayed.
\<close>

theorem buffer_bounded:
  "length (buffer (writes cs (newShared s))) \<le> 1000
   \<and> (length (buffer sh) \<le> 1000 \<longrightarrow> length (buffer (snd (bridgeCore_Write b e fs sh))) \<le> 1000)
   \<and> (target sh = None \<and> \<not> hasInternalKey (cfields b @ fs) \<longrightarrow>
        bridgeCore_Write b e fs sh =
          (None, if length (buffer sh) < 1000
                 then sh\<lparr>buffer := buffer sh @ [\<lparr>ent = e, lfields = cfields b @ fs\<rparr>]\<rparr>
                 else sh))
   \<and> ((\<forall>c \<in> set cs. \<not> internalCall c) \<and> length cs = 1001 \<longrightarrow>
        tstate (SetTarget (recorder (\<lambda>e. True)) (writes cs (newShared []))) = take 1000 (map logOf cs)
        \<and> length (tstate (SetTarget (recorder (\<lambda>e. True)) (writes cs (newShared [])))) = 1000)"
proof -
  have a: "length (buffer (writes cs (newShared s))) \<le> 1000"
    using writes_unattached [of "newShared s" cs] by (simp add: newShared_def)
  have b: "length (buffer sh) \<le> 1000 \<longrightarrow> length (buffer (snd (bridgeCore_Write b e fs sh))) \<le> 1000"
    by (simp add: bridgeCore_Write_def Let_def split: option.splits)
  have c: "target sh = None \<and> \<not> hasInternalKey (cfields b @ fs) \<longrightarrow>
        bridgeCore_Write b e fs sh =
          (None, if length (buffer sh) < 1000
                 then sh\<lparr>buffer := buffer sh @ [\<lparr>ent = e, lfields = cfields b @ fs\<rparr>]\<rparr>
                 else sh)"
    by (simp add: bridgeCore_Write_def Let_def)
  have d: "tstate (SetTarget (recorder (\<lambda>e. True)) (writes cs (newShared []))) = take 1000 (map logOf cs)
        \<and> length (tstate (SetTarget (recorder (\<lambda>e. True)) (writes cs (newShared [])))) = 1000"
    if h: "\<forall>c \<in> set cs. \<not> internalCall c" and n: "length cs = 1001"
  proof -
    have f: "filter (\<lambda>c. \<not> internalCall c) cs = cs"
      using h by (simp add: filter_id_conv)
    let ?n = "newShared ([] :: bufferedLog list)"
    have w: "writes cs ?n = ?n\<lparr>buffer := take 1000 (map logOf cs)\<rparr>"
      using writes_unattached [of ?n cs] by (simp add: newShared_def f)
    have "buffer (writes cs ?n) = take 1000 (map logOf cs)"
      and "tstate (writes cs ?n) = []"
      by (simp_all add: w) (simp add: newShared_def)
    then show ?thesis
      using n by (simp add: SetTarget_def replay_recorder)
  qed
  show ?thesis using a b c d by blast
qed

theorem buffer_bounded_witness:
  "tstate (SetTarget (recorder (\<lambda>e. True))
      (writes (replicate 1001 (newBridgeCore InfoLevel, exEntry InfoLevel ''m'', [])) (newShared []))) =
     replicate 1000 \<lparr>ent = exEntry InfoLevel ''m'', lfields = []\<rparr>
   \<and> bridgeCore_Write (newBridgeCore InfoLevel) (exEntry InfoLevel ''m'') []
        (writes (replicate 1001 (newBridgeCore InfoLevel, exEntry InfoLevel ''m'', []))
           (newShared ([] :: bufferedLog list))) =
      (None, writes (replicate 1001 (newBridgeCore InfoLevel, exEntry InfoLevel ''m'', []))
           (newShared ([] :: bufferedLog list)))"
proof -
  let ?c = "(newBridgeCore InfoLevel, exEntry InfoLevel ''m'', [])"
  let ?cs = "replicate 1001 ?c"
  let ?sh = "writes ?cs (newShared ([] :: bufferedLog list))"
  have ni: "\<not> internalCall ?c"
    by (simp add: internalCall_def hasInternalKey_def newBridgeCore_def)
  have f: "filter (\<lambda>c. \<not> internalCall c) ?cs = ?cs"
    using ni by simp
  have w: "?sh = (newShared [])\<lparr>buffer := replicate 1000 (logOf ?c)\<rparr>"
    using writes_unattached [of "newShared ([] :: bufferedLog list)" ?cs]
    by (simp only: f) (simp add: newShared_def)
  have t: "target ?sh = None" and l: "length (buffer ?sh) = 1000"
    by (simp_all add: w) (simp add: newShared_def)
  have h: "\<not> hasInternalKey (cfields (newBridgeCore InfoLevel) @ [])"
    by (simp add: hasInternalKey_def newBridgeCore_def)
  have p: "(\<forall>c \<in> set ?cs. \<not> internalCall c) \<and> length ?cs = 1001"
    using ni by simp
  note bb = buffer_bounded [of ?cs "[] :: bufferedLog list" ?sh "newBridgeCore InfoLevel"
      "exEntry InfoLevel ''m''" "[]"]
  have r1: "tstate (SetTarget (recorder (\<lambda>e. True)) ?sh) = take 1000 (map logOf ?cs)"
    using bb p by blast
  have r2: "bridgeCore_Write (newBridgeCore InfoLevel) (exEntry InfoLevel ''m'') [] ?sh =
      (None, if length (buffer ?sh) < 1000
             then ?sh\<lparr>buffer := buffer ?sh @
               [\<lparr>ent = exEntry InfoLevel ''m'', lfields = cfields (newBridgeCore InfoLevel) @ []\<rparr>]\<rparr>
             else ?sh)"
    using bb t h by blast
  have r3: "take 1000 (map logOf ?cs) = replicate 1000 \<lparr>ent = exEntry InfoLevel ''m'', lfields = []\<rparr>"
    by (simp add: logOf_def newBridgeCore_def)
  show ?thesis
    using r1 r2 r3 l by simp
qed

text \<open>
  C4. When a field of the handle or of the call has the internal key, \<open>Write\<close>
  returns no error and leaves the whole shared state as it was: nothing is buffered
  and nothing reaches the target, attached or not.
\<close>

theorem internal_dropped:
  assumes "f \<in> set (cfields b) \<union> set fs" and "Key f = internalKey"
  shows "bridgeCore_Write b e fs sh = (None, sh)"
proof -
  have "hasInternalKey (cfields b @ fs)"
    using assms by (auto simp: hasInternalKey_def list_ex_iff)
  then show ?thesis by (simp add: bridgeCore_Write_def)
qed

theorem internal_dropped_witness:
  "bridgeCore_Write (bridgeCore_With (newBridgeCore InfoLevel) [exField ''internal''])
     (exEntry ErrorLevel ''exporter failed'') [exField ''count'']
     (SetTarget (recorder (\<lambda>e. True)) (newShared [])) =
     (None, \<lparr>target = Some (recorder (\<lambda>e. True)), buffer = [], tstate = []\<rparr>)
   \<and> bridgeCore_Write (newBridgeCore InfoLevel)
     (exEntry ErrorLevel ''exporter failed'') [exField ''count'', exField ''internal'']
     (newShared []) = (None, \<lparr>target = None, buffer = [], tstate = [] :: bufferedLog list\<rparr>)"
  using internal_dropped [of "exField ''internal''"
      "bridgeCore_With (newBridgeCore InfoLevel) [exField ''internal'']" "[exField ''count'']"
      "exEntry ErrorLevel ''exporter failed''" "SetTarget (recorder (\<lambda>e. True)) (newShared [])"]
    internal_dropped [of "exField ''internal''"
      "newBridgeCore InfoLevel" "[exField ''count'', exField ''internal'']"
      "exEntry ErrorLevel ''exporter failed''" "newShared ([] :: bufferedLog list)"]
  by (simp add: bridgeCore_With_def newBridgeCore_def exField_def internalKey_def SetTarget_def
      newShared_def)

section \<open>Properties of the telemetry module\<close>

lemma multierr_Errors_Append_New:
  "multierr_Errors (multierr_Append err (Some (New s))) = multierr_Errors err @ [New s]"
  by (cases err) (simp_all add: multierr_Errors_def multierr_Append_def)

lemma Validate_findings:
  "enableMetricExporter m \<or> enableSpanExporter m \<or> enableLogExporter m \<Longrightarrow>
   multierr_Errors (Validate m) = configFindings m"
  unfolding Validate_def configFindings_def Let_def
  by (auto simp: multierr_Errors_Append_New) (simp_all add: multierr_Errors_def)

text \<open>
  C7. \<open>Validate\<close> returns no error when no exporter is enabled. Otherwise the
  errors it returns are, together and in this order, one for an empty service name and
  one for each enabled exporter (log, metric, span) whose protocol is not \<open>grpc\<close>;
  it returns no error exactly when there is none of them.
\<close>

theorem Validate_collects:
  "(\<not> enableMetricExporter m \<and> \<not> enableSpanExporter m \<and> \<not> enableLogExporter m \<longrightarrow>
      Validate m = None)
   \<and> (enableMetricExporter m \<or> enableSpanExporter m \<or> enableLogExporter m \<longrightarrow>
      multierr_Errors (Validate m) = configFindings m
      \<and> (Validate m = None) = (configFindings m = [])
      \<and> length (multierr_Errors (Validate m)) =
          (if serviceName m = [] then 1 else 0)
          + (if enableLogExporter m \<and> logExporterProtocol m \<noteq> ''grpc'' then 1 else 0)
          + (if enableMetricExporter m \<and> metricExporterProcotol m \<noteq> ''grpc'' then 1 else 0)
          + (if enableSpanExporter m \<and> spanExporterProtocol m \<noteq> ''grpc'' then 1 else 0))"
proof -
  have a: "\<not> enableMetricExporter m \<and> \<not> enableSpanExporter m \<and> \<not> enableLogExporter m \<longrightarrow>
      Validate m = None"
    by (simp add: Validate_def)
  have b: "multierr_Errors (Validate m) = configFindings m"
    if "enableMetricExporter m \<or> enableSpanExporter m \<or> enableLogExporter m"
    using that by (rule Validate_findings)
  have c: "(Validate m = None) = (configFindings m = [])"
    if "enableMetricExporter m \<or> enableSpanExporter m \<or> enableLogExporter m"
    using that unfolding Validate_def configFindings_def Let_def
    by (simp add: multierr_Append_def)
  have d: "length (configFindings m) =
          (if serviceName m = [] then 1 else 0)
          + (if enableLogExporter m \<and> logExporterProtocol m \<noteq> ''grpc'' then 1 else 0)
          + (if enableMetricExporter m \<and> metricExporterProcotol m \<noteq> ''grpc'' then 1 else 0)
          + (if enableSpanExporter m \<and> spanExporterProtocol m \<noteq> ''grpc'' then 1 else 0)"
    by (simp add: configFindings_def)
  show ?thesis using a b c d by presburger
qed

theorem Validate_collects_witness:
  "Validate (exOtel\<lparr>serviceName := [], logExporterProtocol := ''http'', enableMetricExporter := False,
       spanExporterProtocol := ''http''\<rparr>) =
     Some (MultiError
       [New ''service name must not be empty'',
        New ''currently, only the 'grpc' protocol is supported for the OTLP log exporter'',
        New ''currently, only the 'grpc' protocol is supported for the OTLP span exporter''])
   \<and> Validate (exOtel\<lparr>enableLogExporter := False, enableMetricExporter := False,
       enableSpanExporter := False, serviceName := []\<rparr>) = None"
  using Validate_collects [of "exOtel\<lparr>serviceName := [], logExporterProtocol := ''http'',
       enableMetricExporter := False, spanExporterProtocol := ''http''\<rparr>"]
    Validate_collects [of "exOtel\<lparr>enableLogExporter := False, enableMetricExporter := False,
       enableSpanExporter := False, serviceName := []\<rparr>"]
  by (simp add: exOtel_def Validate_def multierr_Append_def)

lemma survivor_filterErr:
  "List.map_filter id [filterErr (if \<not> en then None else r)] = survivor en r"
  by (cases r) (simp_all add: filterErr_def survivor_def List.map_filter_simps)

lemma map_filter_three:
  "List.map_filter id [a, b, c] =
     List.map_filter id [a] @ List.map_filter id [b] @ List.map_filter id [c]"
  by (simp add: List.map_filter_def)

lemma Stop_survivors:
  "enableMetricExporter m \<or> enableSpanExporter m \<or> enableLogExporter m \<Longrightarrow>
   Stop env m = (case survivors env m of [] \<Rightarrow> None | e # es \<Rightarrow> Some (JoinError (e # es)))"
  unfolding Stop_def Let_def errors_Join_def survivors_def
  by (simp only: map_filter_three survivor_filterErr) auto

text \<open>
  C6. With no exporter enabled \<open>Stop\<close> returns no error. Otherwise it returns the
  join of the shutdown errors of the enabled exporters that are not a cancellation of
  the context, all of them, and no error when there is none. In particular, when all
  three are enabled, one shutdown returns a cancellation, another a genuine error and
  the third succeeds, the result joins the genuine error alone and has its message.
\<close>

theorem Stop_aggregates:
  "(\<not> enableMetricExporter m \<and> \<not> enableSpanExporter m \<and> \<not> enableLogExporter m \<longrightarrow>
      Stop env m = None)
   \<and> (enableMetricExporter m \<or> enableSpanExporter m \<or> enableLogExporter m \<longrightarrow>
      Stop env m = (case survivors env m of [] \<Rightarrow> None | e # es \<Rightarrow> Some (JoinError (e # es))))
   \<and> (enableMetricExporter m \<and> enableSpanExporter m \<and> enableLogExporter m
      \<and> errors_Is c Canceled \<and> \<not> errors_Is x Canceled
      \<and> (loggerShutdown env, meterShutdown env, tracerShutdown env) \<in>
          {(Some c, Some x, None), (Some c, None, Some x), (Some x, Some c, None),
           (Some x, None, Some c), (None, Some c, Some x), (None, Some x, Some c)} \<longrightarrow>
      Stop env m = Some (JoinError [x]) \<and> Error (JoinError [x]) = Error x)"
proof -
  have a: "\<not> enableMetricExporter m \<and> \<not> enableSpanExporter m \<and> \<not> enableLogExporter m \<longrightarrow>
      Stop env m = None"
    by (simp add: Stop_def)
  have b: "enableMetricExporter m \<or> enableSpanExporter m \<or> enableLogExporter m \<longrightarrow>
      Stop env m = (case survivors env m of [] \<Rightarrow> None | e # es \<Rightarrow> Some (JoinError (e # es)))"
    using Stop_survivors by blast
  have c: "Stop env m = Some (JoinError [x]) \<and> Error (JoinError [x]) = Error x"
    if en: "enableMetricExporter m \<and> enableSpanExporter m \<and> enableLogExporter m"
      and cx: "errors_Is c Canceled \<and> \<not> errors_Is x Canceled"
      and sd: "(loggerShutdown env, meterShutdown env, tracerShutdown env) \<in>
          {(Some c, Some x, None), (Some c, None, Some x), (Some x, Some c, None),
           (Some x, None, Some c), (None, Some c, Some x), (None, Some x, Some c)}"
  proof -
    have "survivors env m = [x]"
      using en cx sd by (auto simp: survivors_def survivor_def)
    then show ?thesis
      using Stop_survivors [of m env] en by simp
  qed
  show ?thesis using a b c by blast
qed

theorem Stop_aggregates_witness:
  "Stop (exEnv\<lparr>loggerShutdown := Some (Errorf_w ''shutdown: '' Canceled),
                meterShutdown := Some (New ''X'')\<rparr>) exOtel = Some (JoinError [New ''X''])
   \<and> Error (JoinError [New ''X'']) = ''X''
   \<and> Stop (exEnv\<lparr>loggerShutdown := Some (New ''X''), tracerShutdown := Some (New ''Y'')\<rparr>) exOtel =
       Some (JoinError [New ''X'', New ''Y''])
   \<and> Stop (exEnv\<lparr>loggerShutdown := Some (New ''X'')\<rparr>)
       (exOtel\<lparr>enableLogExporter := False, enableMetricExporter := False,
                enableSpanExporter := False\<rparr>) = None"
  using Stop_aggregates [of exOtel "exEnv\<lparr>loggerShutdown := Some (Errorf_w ''shutdown: '' Canceled),
                meterShutdown := Some (New ''X'')\<rparr>" "Errorf_w ''shutdown: '' Canceled" "New ''X''"]
    Stop_aggregates [of exOtel "exEnv\<lparr>loggerShutdown := Some (New ''X''),
                tracerShutdown := Some (New ''Y'')\<rparr>" Canceled "New ''X''"]
    Stop_aggregates [of "exOtel\<lparr>enableLogExporter := False, enableMetricExporter := False,
                enableSpanExporter := False\<rparr>" "exEnv\<lparr>loggerShutdown := Some (New ''X'')\<rparr>"
                Canceled "New ''X''"]
  by (simp add: exOtel_def exEnv_def survivors_def survivor_def)

text \<open>
  C5. With the span exporter disabled, \<open>TraceStart\<close> returns \<open>nil\<close>: no
  context and no span. Ending the span it returned is a call on a \<open>nil\<close>
  interface value.
\<close>

theorem TraceStart_disabled_nil:
  "TraceStart (exOtel\<lparr>enableSpanExporter := False\<rparr>) [] ''convert'' = Inr (None, None)
   \<and> TracerSpan_End None = Inl NilDereference"
  by (simp add: TraceStart_def TracerSpan_End_def exOtel_def)

lemma Validate_ignores_metrics:
  "Validate (m\<lparr>metrics := ms\<rparr>) = Validate m"
  by (simp add: Validate_def)

lemma startPollers_unknown:
  assumes "\<forall>g \<in> set good. knownInstrument g \<and> newInstrument env g = None"
    and "\<not> knownInstrument bad"
  shows "fst (startPollers env (good @ bad # rest) spawned) =
           Some (Errorf_d ''unknown instrument: '' (Instrument bad))"
  using assms
proof (induction good arbitrary: spawned)
  case Nil
  then show ?case by (simp add: knownInstrument_def)
next
  case (Cons g good)
  then have "knownInstrument g" and "newInstrument env g = None" by simp_all
  then show ?case using Cons by (auto simp: knownInstrument_def)
qed

text \<open>
  C8. The result of \<open>Validate\<close> does not depend on the metrics of the module. An
  unknown instrument kind is reported by \<open>Start\<close>: with the metric exporter enabled,
  the host name resolved, the log exporter (if enabled) and the metric exporter built,
  and an instrument created for every metric before the first one of unknown kind,
  \<open>Start\<close> returns the error \<open>unknown instrument\<close> with the kind of that metric,
  and nothing else.
\<close>

theorem unknown_instrument_at_Start:
  assumes "enableMetricExporter m" and "Hostname env = Inr h"
    and "enableLogExporter m \<longrightarrow>
           logExporterProtocol m = ''grpc'' \<and> otlploggrpc_New env = None \<and> RegisterCore env = None"
    and "metricExporterProcotol m = ''grpc''" and "otlpmetricgrpc_New env = None"
    and "metrics m = good @ bad # rest"
    and "\<forall>g \<in> set good. knownInstrument g \<and> newInstrument env g = None"
    and "\<not> knownInstrument bad"
  shows "Validate (m\<lparr>metrics := ms\<rparr>) = Validate m
         \<and> Start env m = Inl (Errorf_d ''unknown instrument: '' (Instrument bad))"
proof -
  let ?res = "\<lparr>ServiceName = serviceName m, ServiceVersion = Version env, HostName = h\<rparr>"
  obtain m1 where l: "startLog env ?res m = Inr m1"
    and m1: "enableMetricExporter m1" "metricExporterProcotol m1 = ''grpc''" "metrics m1 = metrics m"
    using assms(1,3,4) by (cases "enableLogExporter m") (auto simp: startLog_def newLogExporter_def)
  have "fst (startPollers env (metrics m1) []) = Some (Errorf_d ''unknown instrument: '' (Instrument bad))"
    using startPollers_unknown [OF assms(7,8)] m1(3) assms(6) by simp
  then have "startMetric env ?res m1 = Inl (Errorf_d ''unknown instrument: '' (Instrument bad))"
    using m1 assms(5)
    by (cases "startPollers env (metrics m1) []") (simp add: startMetric_def newMetricExporter_def)
  then have "Start env m = Inl (Errorf_d ''unknown instrument: '' (Instrument bad))"
    using assms(1,2) l by (simp add: Start_def)
  then show ?thesis by (simp add: Validate_ignores_metrics)
qed

theorem unknown_instrument_at_Start_witness:
  "Validate (exOtel\<lparr>metrics := [exMetric ''a'' GaugeInstrument, exMetric ''b'' 7, exMetric ''c'' 9]\<rparr>)
     = Validate exOtel
   \<and> Start exEnv (exOtel\<lparr>metrics := [exMetric ''a'' GaugeInstrument, exMetric ''b'' 7, exMetric ''c'' 9]\<rparr>)
     = Inl (Errorf_d ''unknown instrument: '' 7)"
  using unknown_instrument_at_Start [of
      "exOtel\<lparr>metrics := [exMetric ''a'' GaugeInstrument, exMetric ''b'' 7, exMetric ''c'' 9]\<rparr>"
      exEnv "''host''" "[exMetric ''a'' GaugeInstrument]" "exMetric ''b'' 7" "[exMetric ''c'' 9]"
      "[exMetric ''a'' GaugeInstrument, exMetric ''b'' 7, exMetric ''c'' 9]"]
  by (simp add: exOtel_def exEnv_def exMetric_def knownInstrument_def CounterInstrument_def
      UpDownCounterInstrument_def HistogramInstrument_def GaugeInstrument_def Validate_def)

text \<open>
  A module whose only metric has the unknown kind 7 passes \<open>Validate\<close>; with an
  empty service name and an unsupported protocol besides, \<open>Validate\<close> returns those
  two errors and none for the kind; \<open>Start\<close> reports the kind 7 of the first such
  metric and not the kind 9 of the second.
\<close>

theorem unknown_instrument_not_validated:
  "Validate (exOtel\<lparr>metrics := [exMetric ''b'' 7]\<rparr>) = None
   \<and> multierr_Errors (Validate (exOtel\<lparr>serviceName := [], metricExporterProcotol := ''http'',
        metrics := [exMetric ''b'' 7]\<rparr>)) =
       [New ''service name must not be empty'',
        New ''currently, only the 'grpc' protocol is supported for the OTLP metric exporter'']
   \<and> Start exEnv (exOtel\<lparr>metrics := [exMetric ''b'' 7, exMetric ''c'' 9]\<rparr>) =
       Inl (Errorf_d ''unknown instrument: '' 7)
   \<and> Error (Errorf_d ''unknown instrument: '' 7) = ''unknown instrument: 7''"
  by (simp add: Validate_def exOtel_def exEnv_def exMetric_def multierr_Append_def multierr_Errors_def
      Start_def startLog_def startMetric_def newLogExporter_def newMetricExporter_def
      CounterInstrument_def UpDownCounterInstrument_def HistogramInstrument_def GaugeInstrument_def
      showInt_def)

section \<open>Properties of the root core\<close>

lemma clamp_floorEntry:
  "(if Level e < DebugLevel then e\<lparr>Level := DebugLevel\<rparr> else e) = floorEntry e"
  by (simp add: floorEntry_def max_def)

lemma bridgeCore_Write_atFloor:
  assumes "atFloor \<lparr>ent = e, lfields = fs'\<rparr>"
    and "\<forall>l \<in> set (buffer sh). atFloor l"
  shows "\<forall>l \<in> set (buffer (snd (bridgeCore_Write b e fs sh))). atFloor l"
  using assms by (auto simp: bridgeCore_Write_def Let_def atFloor_def split: option.splits)

lemma bridgeCore_Write_recorder_atFloor:
  assumes "atFloor \<lparr>ent = e, lfields = fs'\<rparr>"
    and "target sh = Some (recorder chk)"
    and "\<forall>l \<in> set (tstate sh). atFloor l"
  shows "\<forall>l \<in> set (tstate (snd (bridgeCore_Write b e fs sh))). atFloor l"
  using assms by (auto simp: bridgeCore_Write_def Let_def atFloor_def recorder_def)

text \<open>
  C9. The root core raises the level of an entry below \<open>DebugLevel\<close> to
  \<open>DebugLevel\<close> in \<open>Check\<close> and in \<open>Write\<close>: the checked entry that
  \<open>Check\<close> creates holds the raised entry, and \<open>Write\<close> hands the raised
  entry to the core it embeds. So the log that a recording target of the bridge
  observes, and the log the bridge buffers, is at the floor, and when no log was below
  the floor before a write, none is after it.
\<close>

theorem level_floor:
  "(\<forall>ce'. rootCore_Check c e None sh = Some ce' \<longrightarrow>
       Entry ce' = floorEntry e \<and> DebugLevel \<le> Level (Entry ce')
       \<and> (Level e < DebugLevel \<longrightarrow> Level (Entry ce') = DebugLevel))
   \<and> (fst (rootCore_Write c e fs sh), fst (snd (rootCore_Write c e fs sh))) =
        bridgeCore_Write (Core c) (floorEntry e) (snd (snd (rootCore_Write c e fs sh))) sh
   \<and> DebugLevel \<le> Level (floorEntry e)
   \<and> (Level e < DebugLevel \<longrightarrow> Level (floorEntry e) = DebugLevel)
   \<and> (target sh = Some (recorder chk)
       \<and> \<not> hasInternalKey (cfields (Core c) @ snd (snd (rootCore_Write c e fs sh))) \<longrightarrow>
         tstate (fst (snd (rootCore_Write c e fs sh))) =
           tstate sh @ [\<lparr>ent = floorEntry e,
                         lfields = cfields (Core c) @ snd (snd (rootCore_Write c e fs sh))\<rparr>])
   \<and> (target sh = None \<and> length (buffer sh) < 1000
       \<and> \<not> hasInternalKey (cfields (Core c) @ snd (snd (rootCore_Write c e fs sh))) \<longrightarrow>
         buffer (fst (snd (rootCore_Write c e fs sh))) =
           buffer sh @ [\<lparr>ent = floorEntry e,
                         lfields = cfields (Core c) @ snd (snd (rootCore_Write c e fs sh))\<rparr>])
   \<and> ((\<forall>l \<in> set (buffer sh). atFloor l) \<longrightarrow>
        (\<forall>l \<in> set (buffer (fst (snd (rootCore_Write c e fs sh)))). atFloor l))
   \<and> (target sh = Some (recorder chk) \<and> (\<forall>l \<in> set (tstate sh). atFloor l) \<longrightarrow>
        (\<forall>l \<in> set (tstate (fst (snd (rootCore_Write c e fs sh)))). atFloor l))"
proof -
  let ?r = "rootCore_Write c e fs sh"
  let ?fs = "snd (snd ?r)"
  have w: "fst (snd ?r) = snd (bridgeCore_Write (Core c) (floorEntry e) ?fs sh)"
    and w1: "fst ?r = fst (bridgeCore_Write (Core c) (floorEntry e) ?fs sh)"
    by (simp_all add: rootCore_Write_def Let_def clamp_floorEntry)
  have fl: "DebugLevel \<le> Level (floorEntry e)"
    and fl2: "Level e < DebugLevel \<longrightarrow> Level (floorEntry e) = DebugLevel"
    by (simp_all add: floorEntry_def)
  have af: "atFloor \<lparr>ent = floorEntry e, lfields = []\<rparr>"
    using fl by (simp add: atFloor_def)
  have a: "\<forall>ce'. rootCore_Check c e None sh = Some ce' \<longrightarrow>
       Entry ce' = floorEntry e \<and> DebugLevel \<le> Level (Entry ce')
       \<and> (Level e < DebugLevel \<longrightarrow> Level (Entry ce') = DebugLevel)"
    using fl fl2
    by (auto simp: rootCore_Check_def Let_def clamp_floorEntry AddCore_def split: if_splits)
  have b: "(fst ?r, fst (snd ?r)) = bridgeCore_Write (Core c) (floorEntry e) ?fs sh"
    using w w1 by simp
  have c: "target sh = Some (recorder chk) \<and> \<not> hasInternalKey (cfields (Core c) @ ?fs) \<longrightarrow>
         tstate (fst (snd ?r)) =
           tstate sh @ [\<lparr>ent = floorEntry e, lfields = cfields (Core c) @ ?fs\<rparr>]"
    unfolding w by (simp add: bridgeCore_Write_def Let_def recorder_def)
  have d: "target sh = None \<and> length (buffer sh) < 1000
       \<and> \<not> hasInternalKey (cfields (Core c) @ ?fs) \<longrightarrow>
         buffer (fst (snd ?r)) =
           buffer sh @ [\<lparr>ent = floorEntry e, lfields = cfields (Core c) @ ?fs\<rparr>]"
    unfolding w by (simp add: bridgeCore_Write_def Let_def)
  have f: "(\<forall>l \<in> set (buffer sh). atFloor l) \<longrightarrow>
        (\<forall>l \<in> set (buffer (fst (snd ?r))). atFloor l)"
    unfolding w using bridgeCore_Write_atFloor [OF af] by blast
  have g: "target sh = Some (recorder chk) \<and> (\<forall>l \<in> set (tstate sh). atFloor l) \<longrightarrow>
        (\<forall>l \<in> set (tstate (fst (snd ?r))). atFloor l)"
    unfolding w using bridgeCore_Write_recorder_atFloor [OF af] by blast
  show ?thesis
    using a b fl fl2 c d f g by (intro conjI)
qed

theorem level_floor_witness:
  "tstate (fst (snd (rootCore_Write (bridgeRoot (Logger_tee [] DebugLevel)) (exEntry (-2) ''trace'')
      [exField ''count''] (SetTarget (recorder (\<lambda>e. True)) (newShared []))))) =
     [\<lparr>ent = exEntry DebugLevel ''trace'', lfields = [exField ''count'']\<rparr>]
   \<and> rootCore_Check (bridgeRoot (Logger_tee [] DebugLevel)) (exEntry (-2) ''trace'') None
        (newShared ([] :: bufferedLog list)) =
      Some \<lparr>Entry = exEntry DebugLevel ''trace'', cores = [bridgeRoot (Logger_tee [] DebugLevel)]\<rparr>
   \<and> buffer (fst (snd (rootCore_Write (bridgeRoot (Logger_tee [] DebugLevel)) (exEntry (-2) ''trace'')
      [exField ''count''] (newShared ([] :: bufferedLog list))))) =
     [\<lparr>ent = exEntry DebugLevel ''trace'', lfields = [exField ''count'']\<rparr>]"
proof -
  let ?c = "bridgeRoot (Logger_tee [] DebugLevel)"
  let ?e = "exEntry (-2) ''trace''"
  let ?fs = "[exField ''count'']"
  let ?sh0 = "newShared ([] :: bufferedLog list)"
  let ?sh1 = "SetTarget (recorder (\<lambda>e. True)) ?sh0"
  have fs: "snd (snd (rootCore_Write ?c ?e ?fs sh)) = ?fs" for sh :: "bufferedLog list sharedBridgeState"
    by (simp add: rootCore_Write_def Logger_tee_def Let_def)
  have cf: "cfields (Core ?c) = []"
    by (simp add: Logger_tee_def newBridgeCore_def)
  have ni: "\<not> hasInternalKey (cfields (Core ?c) @ ?fs)"
    by (simp add: cf hasInternalKey_def internalKey_def exField_def)
  have fe: "floorEntry ?e = exEntry DebugLevel ''trace''"
    by (simp add: floorEntry_def exEntry_def DebugLevel_def)
  have t1: "target ?sh1 = Some (recorder (\<lambda>e. True))" and s1: "tstate ?sh1 = []"
    by (simp_all add: SetTarget_def newShared_def)
  have t0: "target ?sh0 = None" and b0: "buffer ?sh0 = []"
    by (simp_all add: newShared_def)
  note lf1 = level_floor [of ?c ?e ?sh1 ?fs "\<lambda>e. True"]
  note lf0 = level_floor [of ?c ?e ?sh0 ?fs "\<lambda>e. True"]
  have r1: "tstate (fst (snd (rootCore_Write ?c ?e ?fs ?sh1))) =
      tstate ?sh1 @ [\<lparr>ent = floorEntry ?e, lfields = cfields (Core ?c) @ ?fs\<rparr>]"
    using lf1 t1 ni by (simp only: fs) blast
  have r3: "buffer (fst (snd (rootCore_Write ?c ?e ?fs ?sh0))) =
      buffer ?sh0 @ [\<lparr>ent = floorEntry ?e, lfields = cfields (Core ?c) @ ?fs\<rparr>]"
    using lf0 t0 b0 ni by (simp only: fs) simp
  have en: "bridgeCore_Enabled (Core ?c) DebugLevel ?sh0"
    by (simp add: bridgeCore_Enabled_def t0 Logger_tee_def newBridgeCore_def)
  have r2: "rootCore_Check ?c ?e None ?sh0 = Some \<lparr>Entry = exEntry DebugLevel ''trace'', cores = [?c]\<rparr>"
    using en by (simp add: rootCore_Check_def AddCore_def exEntry_def DebugLevel_def)
  show ?thesis
    using r1 r2 r3 by (simp add: fe cf s1 b0)
qed

text \<open>
  The slice that \<open>Write\<close> returns to its caller is the rewritten one. A second
  root core with the same prefix that is handed this slice, as happens when one call
  is written to several cores in turn, prefixes the keys a second time.
\<close>

lemma rootCore_Write_slice_twice:
  assumes "fieldsPrefix c \<noteq> []" and "fieldsPrefix c' = fieldsPrefix c"
  shows "snd (snd (rootCore_Write c' e' (snd (snd (rootCore_Write c e fs sh))) sh')) =
           prefixKeys (fieldsPrefix c) (prefixKeys (fieldsPrefix c) fs)"
  using assms by (simp add: rootCore_Write_def Let_def)

lemma tee_Write_slice:
  assumes "fieldsPrefix (bridgeRoot t) = p" and "stdFieldsPrefix (stdRoot t) = p" and "p \<noteq> []"
  shows "snd (tee_Write t e fs w) = prefixKeys p (prefixKeys p fs)
         \<and> snd (fst (tee_Write t e fs w)) =
             snd (bridgeCore_Write (Core (bridgeRoot t)) (floorEntry e)
                    (prefixKeys p (prefixKeys p fs)) (snd w))
         \<and> fst (fst (tee_Write t e fs w)) =
             fst w @ [\<lparr>ent = floorEntry e,
                        lfields = sfields (StdCore (stdRoot t)) @ prefixKeys p fs\<rparr>]"
  using assms
  by (simp add: tee_Write_def stdRootCore_Write_def rootCore_Write_def stdCore_Write_def Let_def
      clamp_floorEntry)

text \<open>
  C10. A logger of \<open>Logging.Logger\<close> with the prefix \<open>app\<close> writes a field
  named \<open>count\<close>. The standard core writes it out as \<open>app_count\<close>. The root
  core around the bridge is handed the slice the first root core has rewritten and
  rewrites it again: the target of the bridge, and its buffer before a target is
  attached, hold \<open>app_app_count\<close>, and so does the slice the caller gets back. A
  field \<open>route\<close> of a handle derived by \<open>With\<close> reaches the bridge as
  \<open>app_app_route\<close> in the same way.
\<close>

theorem Logger_tee_prefixes_twice:
  "fst (fst (tee_Write (Logger_tee ''app'' InfoLevel) (exEntry InfoLevel ''done'') [exField ''count'']
       ([], SetTarget (recorder (\<lambda>e. True)) (newShared [])))) =
     [\<lparr>ent = exEntry InfoLevel ''done'', lfields = [exField ''app_count'']\<rparr>]
   \<and> tstate (snd (fst (tee_Write (Logger_tee ''app'' InfoLevel) (exEntry InfoLevel ''done'')
       [exField ''count''] ([], SetTarget (recorder (\<lambda>e. True)) (newShared []))))) =
     [\<lparr>ent = exEntry InfoLevel ''done'', lfields = [exField ''app_app_count'']\<rparr>]
   \<and> buffer (snd (fst (tee_Write (Logger_tee ''app'' InfoLevel) (exEntry InfoLevel ''done'')
       [exField ''count''] ([], newShared ([] :: bufferedLog list))))) =
     [\<lparr>ent = exEntry InfoLevel ''done'', lfields = [exField ''app_app_count'']\<rparr>]
   \<and> snd (tee_Write (Logger_tee ''app'' InfoLevel) (exEntry InfoLevel ''done'') [exField ''count'']
       ([], newShared ([] :: bufferedLog list))) = [exField ''app_app_count'']
   \<and> tstate (snd (fst (tee_Write (fst (tee_With (Logger_tee ''app'' InfoLevel) [exField ''route'']))
       (exEntry InfoLevel ''done'') [exField ''count'']
       ([], SetTarget (recorder (\<lambda>e. True)) (newShared []))))) =
     [\<lparr>ent = exEntry InfoLevel ''done'',
        lfields = [exField ''app_app_route'', exField ''app_app_count'']\<rparr>]
   \<and> fst (fst (tee_Write (fst (tee_With (Logger_tee ''app'' InfoLevel) [exField ''route'']))
       (exEntry InfoLevel ''done'') [exField ''count'']
       ([], SetTarget (recorder (\<lambda>e. True)) (newShared ([] :: bufferedLog list))))) =
     [\<lparr>ent = exEntry InfoLevel ''done'',
        lfields = [exField ''app_route'', exField ''app_count'']\<rparr>]"
proof -
  let ?t = "Logger_tee ''app'' InfoLevel"
  let ?e = "exEntry InfoLevel ''done''"
  let ?sh0 = "newShared ([] :: bufferedLog list)"
  let ?sh1 = "SetTarget (recorder (\<lambda>e. True)) ?sh0"
  let ?t' = "fst (tee_With ?t [exField ''route''])"
  have fe: "floorEntry ?e = ?e"
    by (simp add: floorEntry_def exEntry_def InfoLevel_def DebugLevel_def)
  have pk: "prefixKeys ''app'' (prefixKeys ''app'' [exField k]) = [exField (''app_app_'' @ k)]"
    and pk1: "prefixKeys ''app'' [exField k] = [exField (''app_'' @ k)]" for k
    by (simp_all add: prefixKeys_def exField_def)
  have t: "fieldsPrefix (bridgeRoot ?t) = ''app''" "stdFieldsPrefix (stdRoot ?t) = ''app''"
    "cfields (Core (bridgeRoot ?t)) = []" "sfields (StdCore (stdRoot ?t)) = []"
    by (simp_all add: Logger_tee_def newBridgeCore_def)
  have t': "fieldsPrefix (bridgeRoot ?t') = ''app''" "stdFieldsPrefix (stdRoot ?t') = ''app''"
    "cfields (Core (bridgeRoot ?t')) = [exField ''app_app_route'']"
    "sfields (StdCore (stdRoot ?t')) = [exField ''app_route'']"
    by (simp_all add: tee_With_def stdRootCore_With_def rootCore_With_def stdCore_With_def
        bridgeCore_With_def Let_def t pk pk1)
  have ni: "\<not> hasInternalKey [exField ''app_app_count'']"
    "\<not> hasInternalKey [exField ''app_app_route'', exField ''app_app_count'']"
    by (simp_all add: hasInternalKey_def internalKey_def exField_def)
  have w1: "snd (bridgeCore_Write b ?e [exField ''app_app_count''] ?sh1) =
      ?sh1\<lparr>tstate := [\<lparr>ent = ?e, lfields = cfields b @ [exField ''app_app_count'']\<rparr>]\<rparr>"
    if "\<not> hasInternalKey (cfields b @ [exField ''app_app_count''])" for b
    using that by (simp add: bridgeCore_Write_def SetTarget_def newShared_def recorder_def)
  have w0: "snd (bridgeCore_Write b ?e [exField ''app_app_count''] ?sh0) =
      ?sh0\<lparr>buffer := [\<lparr>ent = ?e, lfields = cfields b @ [exField ''app_app_count'']\<rparr>]\<rparr>"
    if "\<not> hasInternalKey (cfields b @ [exField ''app_app_count''])" for b
    using that by (simp add: bridgeCore_Write_def newShared_def)
  note a1 = tee_Write_slice [OF t(1) t(2), of ?e "[exField ''count'']" "([], ?sh1)"]
  note a0 = tee_Write_slice [OF t(1) t(2), of ?e "[exField ''count'']" "([], ?sh0)"]
  note b1 = tee_Write_slice [OF t'(1) t'(2), of ?e "[exField ''count'']" "([], ?sh1)"]
  have c1: "fst (fst (tee_Write ?t ?e [exField ''count''] ([], ?sh1))) =
      [\<lparr>ent = ?e, lfields = [exField ''app_count'']\<rparr>]"
    using a1 by (simp add: fe pk1 t)
  have c2: "tstate (snd (fst (tee_Write ?t ?e [exField ''count''] ([], ?sh1)))) =
      [\<lparr>ent = ?e, lfields = [exField ''app_app_count'']\<rparr>]"
    using a1 w1 [of "Core (bridgeRoot ?t)"] ni by (simp add: fe pk t)
  have c3: "buffer (snd (fst (tee_Write ?t ?e [exField ''count''] ([], ?sh0)))) =
      [\<lparr>ent = ?e, lfields = [exField ''app_app_count'']\<rparr>]"
    using a0 w0 [of "Core (bridgeRoot ?t)"] ni by (simp add: fe pk t)
  have c4: "snd (tee_Write ?t ?e [exField ''count''] ([], ?sh0)) = [exField ''app_app_count'']"
    using a0 by (simp add: pk)
  have c5: "tstate (snd (fst (tee_Write ?t' ?e [exField ''count''] ([], ?sh1)))) =
      [\<lparr>ent = ?e, lfields = [exField ''app_app_route'', exField ''app_app_count'']\<rparr>]"
    using b1 w1 [of "Core (bridgeRoot ?t')"] ni by (simp add: fe pk t')
  have c6: "fst (fst (tee_Write ?t' ?e [exField ''count''] ([], ?sh1))) =
      [\<lparr>ent = ?e, lfields = [exField ''app_route'', exField ''app_count'']\<rparr>]"
    using b1 by (simp add: fe pk1 t')
  show ?thesis
    by (intro conjI) (rule c1 c2 c3 c4 c5 c6)+
qed

end
